theory Spec2Isabelle
  imports Main "HOL-Library.Sublist"
begin

section \<open>Python values used by the Falcon middleware\<close>

text \<open>
  Python strings are modelled as \<open>string\<close>. Header names, status lines and exception
  class names are ASCII, so one \<open>char\<close> is one code point here.
\<close>

subsection \<open>\<open>str.partition\<close> with a one-character separator\<close>

text \<open>
  \<^verbatim>\<open>s.partition(sep)\<close> returns \<^verbatim>\<open>(head, sep, tail)\<close> split at the first occurrence of
  \<^verbatim>\<open>sep\<close>, and \<^verbatim>\<open>(s, "", "")\<close> when \<^verbatim>\<open>sep\<close> does not occur. The middleware calls it
  with the separator \<^verbatim>\<open>" "\<close> only.
\<close>

fun partition_str :: "char \<Rightarrow> string \<Rightarrow> string \<times> string \<times> string" where
  "partition_str sep [] = ([], [], [])"
| "partition_str sep (c # cs) =
     (if c = sep then ([], [sep], cs)
      else (case partition_str sep cs of (h, s, t) \<Rightarrow> (c # h, s, t)))"

subsection \<open>\<open>str.lower\<close>\<close>

definition lower_chr :: "char \<Rightarrow> char" where
  "lower_chr c =
     (let n = (of_char c :: nat)
      in if 65 \<le> n \<and> n \<le> 90 then char_of (n + 32) else c)"

definition lower :: "string \<Rightarrow> string" where
  "lower s = map lower_chr s"

subsection \<open>Dictionaries\<close>

text \<open>
  A Python \<^verbatim>\<open>dict\<close> is kept as an association list in insertion order with distinct
  keys. Storing under a key that is present replaces the value in place; a new key is
  appended. \<open>dict_of_pairs\<close> is \<^verbatim>\<open>dict(pairs)\<close>: the pairs are stored from left to
  right, so of two pairs with the same key the later value wins.
\<close>

type_synonym headers = "(string \<times> string) list"

fun dict_set :: "'k \<Rightarrow> 'v \<Rightarrow> ('k \<times> 'v) list \<Rightarrow> ('k \<times> 'v) list" where
  "dict_set k v [] = [(k, v)]"
| "dict_set k v ((k', v') # d) =
     (if k = k' then (k', v) # d else (k', v') # dict_set k v d)"

definition dict_of_pairs :: "('k \<times> 'v) list \<Rightarrow> ('k \<times> 'v) list" where
  "dict_of_pairs ps = foldl (\<lambda>d (k, v). dict_set k v d) [] ps"

text \<open>\<^verbatim>\<open>dict((k.lower(), v) for k, v in iteritems(req.headers))\<close>, line 31.\<close>

definition lower_keys :: "headers \<Rightarrow> headers" where
  "lower_keys hs = dict_of_pairs (map (\<lambda>(k, v). (lower k, v)) hs)"

section \<open>Collaborators of the middleware\<close>

subsection \<open>Span\<close>

text \<open>
  The tag keys are constants of the tracing library (\<^verbatim>\<open>COMPONENT\<close>, \<^verbatim>\<open>SPAN_KIND\<close>,
  \<^verbatim>\<open>SPAN_MEASURED_KEY\<close>, \<^verbatim>\<open>ANALYTICS_SAMPLE_RATE_KEY\<close>, \<^verbatim>\<open>httpx.STATUS_CODE\<close>) whose
  values are not part of the middleware; they are kept symbolic. The remaining keys are
  the ones under which the HTTP metadata of a request is recorded, and \<open>USER_TAG\<close> is
  any other key a callback may write.
\<close>

datatype tag_key =
    COMPONENT | SPAN_KIND | SPAN_MEASURED_KEY | ANALYTICS_SAMPLE_RATE_KEY
  | STATUS_CODE | HTTP_METHOD | HTTP_URL | HTTP_QUERY | HTTP_ROUTE
  | REQUEST_HEADER string | RESPONSE_HEADER string | USER_TAG string

typedecl sample_rate

datatype span_kind = SERVER | CLIENT
datatype span_type = WEB

text \<open>
  A tag value is a string, the span kind constant \<^verbatim>\<open>SpanKind.SERVER\<close> (kept symbolic as
  well), what \<^verbatim>\<open>get_analytics_sample_rate\<close> returned, or \<^verbatim>\<open>None\<close>.
\<close>

datatype tag_value = StrVal string | KindVal span_kind | RateVal "sample_rate option" | NoVal

definition py_val :: "string option \<Rightarrow> tag_value" where
  "py_val v = (case v of None \<Rightarrow> NoVal | Some s \<Rightarrow> StrVal s)"

record trace_context =
  trace_id :: nat
  parent_id :: nat

text \<open>
  Modelled from the spec: the Span of section 3 and its mutation methods of section 6
  (\<^verbatim>\<open>set_tag_str\<close>, \<^verbatim>\<open>set_tag\<close>, \<^verbatim>\<open>set_traceback\<close>, \<^verbatim>\<open>finish\<close>), which belong to the
  tracer and are not in the middleware's file. \<open>tracebacks\<close> and \<open>finish_calls\<close>
  count the calls of \<^verbatim>\<open>set_traceback\<close> and \<^verbatim>\<open>finish\<close> made on the span; a span is open
  while \<open>finish_calls\<close> is 0.
\<close>

record span =
  name :: string
  service :: string
  span_type :: span_type
  parent :: "trace_context option"
  resource :: "string option"
  meta :: "tag_key \<rightharpoonup> tag_value"
  tracebacks :: nat
  finish_calls :: nat

definition set_tag :: "tag_key \<Rightarrow> tag_value \<Rightarrow> span \<Rightarrow> span" where
  "set_tag k v s = s\<lparr>meta := (meta s)(k \<mapsto> v)\<rparr>"

definition set_tag_str :: "tag_key \<Rightarrow> string \<Rightarrow> span \<Rightarrow> span" where
  "set_tag_str k v s = set_tag k (StrVal v) s"

definition set_traceback :: "span \<Rightarrow> span" where
  "set_traceback s = s\<lparr>tracebacks := Suc (tracebacks s)\<rparr>"

definition finish :: "span \<Rightarrow> span" where
  "finish s = s\<lparr>finish_calls := Suc (finish_calls s)\<rparr>"

definition is_open :: "span \<Rightarrow> bool" where
  "is_open s = (finish_calls s = 0)"

subsection \<open>Request, response and resource objects of the framework\<close>

text \<open>
  \<open>root_path\<close> may be \<^verbatim>\<open>None\<close> or empty; \<open>uri_template\<close> is the template of the matched
  route. \<open>req_succeeded\<close> is passed to \<open>process_response\<close> as \<open>bool option\<close>:
  \<^verbatim>\<open>None\<close>, \<^verbatim>\<open>True\<close> or \<^verbatim>\<open>False\<close>.
\<close>

text \<open>The field \<^verbatim>\<open>method\<close> of the request is \<open>req_method\<close> here.\<close>

record request =
  headers :: headers
  req_method :: string
  url :: string
  query_string :: string
  root_path :: "string option"
  uri_template :: string

record response =
  status :: string
  resp_headers :: headers

record resource_obj =
  r_module :: string
  r_class_name :: string

text \<open>An exception type, as far as the middleware looks at it: its \<^verbatim>\<open>__name__\<close>.\<close>

record exc_type =
  exc_name :: string

subsection \<open>Integration configuration and hooks\<close>

type_synonym hook = "span \<Rightarrow> request \<Rightarrow> response \<Rightarrow> span"

text \<open>
  \<^verbatim>\<open>config.falcon\<close>: the process-wide settings of the integration. \<open>hooks\<close> gives, per
  event name, the callbacks in the order of their registration. A callback receives the
  span, the request and the response and may change the span; it is a function from the
  span it is given to the span it leaves.
\<close>

record falcon_config =
  distributed_tracing :: bool
  integration_name :: string
  get_analytics_sample_rate :: "bool \<Rightarrow> sample_rate option"
  trace_header :: "string \<Rightarrow> bool"
  hooks :: "string \<Rightarrow> hook list"

text \<open>
  Modelled from the spec: the Hook Dispatcher of section 4.4, which is not in the
  middleware's file. \<open>register\<close> appends a callback to the sequence of its event;
  \<open>emit\<close> invokes each registered callback in registration order, synchronously, each on
  the span as the previous one left it.
\<close>

definition register :: "string \<Rightarrow> hook \<Rightarrow> falcon_config \<Rightarrow> falcon_config" where
  "register ev h cfg = cfg\<lparr>hooks := (hooks cfg)(ev := hooks cfg ev @ [h])\<rparr>"

definition emit :: "falcon_config \<Rightarrow> string \<Rightarrow> span \<Rightarrow> request \<Rightarrow> response \<Rightarrow> span" where
  "emit cfg ev s req resp = foldl (\<lambda>s h. h s req resp) s (hooks cfg ev)"

subsection \<open>Tracer\<close>

text \<open>
  Modelled from the spec: the Tracer of section 6. \<open>current\<close> is what
  \<^verbatim>\<open>current_span()\<close> returns, \<open>active_context\<close> the distributed context activated for
  the span about to be created. \<open>trace\<close> creates an open span under the active context
  and makes it the current span.
\<close>

record tracer =
  current :: "span option"
  active_context :: "trace_context option"

definition current_span :: "tracer \<Rightarrow> span option" where
  "current_span t = current t"

definition trace :: "string \<Rightarrow> string \<Rightarrow> span_type \<Rightarrow> tracer \<Rightarrow> span \<times> tracer" where
  "trace nm svc ty t =
     (let s = \<lparr>name = nm, service = svc, span_type = ty, parent = active_context t,
                resource = None, meta = Map.empty, tracebacks = 0, finish_calls = 0\<rparr>
      in (s, t\<lparr>current := Some s\<rparr>))"

subsection \<open>Functions of the tracing library taken as parameters\<close>

text \<open>
  \<open>schematize_service_name\<close>, \<open>schematize_url_operation\<close> and the propagation format
  that reads a distributed context out of a header mapping are functions of the library
  outside the middleware; the model is parametric in them.
\<close>

record externals =
  schematize_service_name :: "string \<Rightarrow> string"
  schematize_url_operation :: "string \<Rightarrow> string"
  extract_context :: "headers \<Rightarrow> trace_context option"

text \<open>
  Modelled from the spec: the Context Carrier Adapter of section 4.1,
  \<^verbatim>\<open>trace_utils.activate_distributed_headers\<close>. When distributed tracing is disabled by
  the configuration, extraction is skipped; otherwise what the headers carry is activated,
  and headers that carry nothing leave the tracer as it is.
\<close>

definition activate_distributed_headers ::
  "externals \<Rightarrow> tracer \<Rightarrow> falcon_config \<Rightarrow> headers \<Rightarrow> tracer" where
  "activate_distributed_headers ext t int_config request_headers =
     (if distributed_tracing int_config then
        (case extract_context ext request_headers of
           None \<Rightarrow> t
         | Some c \<Rightarrow> t\<lparr>active_context := Some c\<rparr>)
      else t)"

text \<open>
  Modelled from the spec: \<^verbatim>\<open>trace_utils.set_http_meta\<close>, which records on the span the
  keyword arguments it is given (sections 4.2.1 and 4.2.3): method, URL, query, status
  code and route under their keys, and of the headers those the configuration selects.
\<close>

record http_meta =
  m_method :: "string option"
  m_url :: "string option"
  m_query :: "string option"
  m_request_headers :: "headers option"
  m_status_code :: "string option"
  m_response_headers :: "headers option"
  m_route :: "string option"

definition no_meta :: http_meta where
  "no_meta = \<lparr>m_method = None, m_url = None, m_query = None, m_request_headers = None,
               m_status_code = None, m_response_headers = None, m_route = None\<rparr>"

definition set_opt_tag :: "tag_key \<Rightarrow> string option \<Rightarrow> span \<Rightarrow> span" where
  "set_opt_tag k v s = (case v of None \<Rightarrow> s | Some x \<Rightarrow> set_tag_str k x s)"

definition set_header_tags ::
  "falcon_config \<Rightarrow> (string \<Rightarrow> tag_key) \<Rightarrow> headers option \<Rightarrow> span \<Rightarrow> span" where
  "set_header_tags cfg mk hs s =
     (case hs of
        None \<Rightarrow> s
      | Some h \<Rightarrow>
          foldl (\<lambda>s (k, v). if trace_header cfg k then set_tag_str (mk k) v s else s) s h)"

definition set_http_meta :: "span \<Rightarrow> falcon_config \<Rightarrow> http_meta \<Rightarrow> span" where
  "set_http_meta s cfg a =
     set_header_tags cfg RESPONSE_HEADER (m_response_headers a)
       (set_header_tags cfg REQUEST_HEADER (m_request_headers a)
         (set_opt_tag HTTP_ROUTE (m_route a)
           (set_opt_tag STATUS_CODE (m_status_code a)
             (set_opt_tag HTTP_QUERY (m_query a)
               (set_opt_tag HTTP_URL (m_url a)
                 (set_opt_tag HTTP_METHOD (m_method a) s))))))"

section \<open>The middleware\<close>

text \<open>
  The process holds the integration configuration \<^verbatim>\<open>config.falcon\<close>, the tracer
  objects (a middleware keeps a reference to one of them) and the exception being handled
  in the current thread, whose type \<^verbatim>\<open>sys.exc_info()[0]\<close> returns.
\<close>

record world =
  config_falcon :: falcon_config
  tracers :: "nat \<Rightarrow> tracer"
  exc_info :: "exc_type option"

record middleware =
  mw_tracer :: nat
  mw_service :: string

text \<open>
  A span is an object shared between the tracer and the middleware: what the middleware
  does to the span it got from \<^verbatim>\<open>trace\<close> or \<^verbatim>\<open>current_span\<close> is done to the tracer's current
  span. \<open>put_span\<close> writes the span back.
\<close>

definition put_span :: "middleware \<Rightarrow> span \<Rightarrow> world \<Rightarrow> world" where
  "put_span self s w =
     w\<lparr>tracers := (tracers w)(mw_tracer self := (tracers w (mw_tracer self))\<lparr>current := Some s\<rparr>)\<rparr>"

text \<open>\<^verbatim>\<open>TraceMiddleware.__init__\<close>, lines 20 to 27.\<close>

definition init ::
  "externals \<Rightarrow> world \<Rightarrow> nat \<Rightarrow> string option \<Rightarrow> bool option \<Rightarrow> middleware \<times> world" where
  "init ext w tracer_ref service_arg distributed_tracing_arg =
     (let service = (case service_arg of
                       None \<Rightarrow> schematize_service_name ext ''falcon''
                     | Some s \<Rightarrow> s);
          self = \<lparr>mw_tracer = tracer_ref, mw_service = service\<rparr>
      in (case distributed_tracing_arg of
            None \<Rightarrow> (self, w)
          | Some d \<Rightarrow>
              (self, w\<lparr>config_falcon := (config_falcon w)\<lparr>distributed_tracing := d\<rparr>\<rparr>)))"

text \<open>\<^verbatim>\<open>TraceMiddleware.process_request\<close>, lines 29 to 51.\<close>

definition process_request ::
  "externals \<Rightarrow> middleware \<Rightarrow> world \<Rightarrow> request \<Rightarrow> response \<Rightarrow> world" where
  "process_request ext self w req resp =
     (let hdrs = lower_keys (headers req);
          t = activate_distributed_headers ext (tracers w (mw_tracer self)) (config_falcon w) hdrs;
          (span, t) = trace (schematize_url_operation ext ''falcon.request'') (mw_service self) WEB t;
          span = set_tag_str COMPONENT (integration_name (config_falcon w)) span;
          span = set_tag SPAN_KIND (KindVal SERVER) span;
          span = set_tag SPAN_MEASURED_KEY NoVal span;
          span = set_tag ANALYTICS_SAMPLE_RATE_KEY
                   (RateVal (get_analytics_sample_rate (config_falcon w) True)) span;
          span = set_http_meta span (config_falcon w)
                   (no_meta\<lparr>m_method := Some (req_method req), m_url := Some (url req),
                            m_query := Some (query_string req),
                            m_request_headers := Some (headers req)\<rparr>)
      in put_span self span (w\<lparr>tracers := (tracers w)(mw_tracer self := t)\<rparr>))"

text \<open>\<^verbatim>\<open>_name\<close>, lines 123 and 124.\<close>

definition name_of :: "resource_obj \<Rightarrow> string" where
  "name_of r = r_module r @ ''.'' @ r_class_name r"

text \<open>\<^verbatim>\<open>TraceMiddleware.process_resource\<close>, lines 53 to 57.\<close>

definition process_resource ::
  "middleware \<Rightarrow> world \<Rightarrow> request \<Rightarrow> response \<Rightarrow> resource_obj \<Rightarrow> (string \<times> string) list
     \<Rightarrow> world" where
  "process_resource self w req resp res params =
     (case current_span (tracers w (mw_tracer self)) of
        None \<Rightarrow> w
      | Some span \<Rightarrow>
          put_span self (span\<lparr>resource := Some (req_method req @ '' '' @ name_of res)\<rparr>) w)"

text \<open>\<^verbatim>\<open>_is_404\<close>, lines 108 and 109: Python's \<^verbatim>\<open>in\<close> on strings is the substring test.\<close>

definition is_404 :: "exc_type \<Rightarrow> bool" where
  "is_404 err_type = sublist ''HTTPNotFound'' (exc_name err_type)"

text \<open>
  \<^verbatim>\<open>_detect_and_set_status_error\<close>, lines 112 to 120. A Python function that falls off
  its end returns \<^verbatim>\<open>None\<close>, so the status is a \<open>string option\<close>.
\<close>

definition detect_and_set_status_error :: "exc_type \<Rightarrow> span \<Rightarrow> string option \<times> span" where
  "detect_and_set_status_error err_type span =
     (if \<not> is_404 err_type then (Some ''500'', set_traceback span)
      else if is_404 err_type then (Some ''404'', span)
      else (None, span))"

text \<open>\<^verbatim>\<open>a or b\<close> on a string that may be \<^verbatim>\<open>None\<close>: \<^verbatim>\<open>a\<close> when it is non-empty, else \<^verbatim>\<open>b\<close>.\<close>

definition py_or :: "string option \<Rightarrow> string \<Rightarrow> string" where
  "py_or a b = (case a of None \<Rightarrow> b | Some x \<Rightarrow> if x = [] then b else x)"

text \<open>
  \<^verbatim>\<open>TraceMiddleware.process_response\<close>, lines 59 to 105. In line 90,
  \<^verbatim>\<open>req.root_path or "" + req.uri_template\<close>, the operator \<^verbatim>\<open>+\<close> binds tighter than
  \<^verbatim>\<open>or\<close>.
\<close>

definition process_response ::
  "middleware \<Rightarrow> world \<Rightarrow> request \<Rightarrow> response \<Rightarrow> resource_obj option \<Rightarrow> bool option
     \<Rightarrow> world" where
  "process_response self w req resp res req_succeeded =
     (case current_span (tracers w (mw_tracer self)) of
        None \<Rightarrow> w
      | Some span \<Rightarrow>
          (let status = Some (fst (partition_str CHR '' '' (status resp)))
           in if res = None then
                (let status = Some ''404'';
                     span = span\<lparr>resource := Some (req_method req @ '' 404'')\<rparr>;
                     span = set_tag STATUS_CODE (py_val status) span;
                     span = finish span
                 in put_span self span w)
              else
                (let err_type = exc_info w;
                     (status, span) =
                       (case err_type of
                          None \<Rightarrow> (status, span)
                        | Some e \<Rightarrow>
                            if req_succeeded = None then detect_and_set_status_error e span
                            else if req_succeeded = Some False
                            then detect_and_set_status_error e span
                            else (status, span));
                     route = py_or (root_path req) ([] @ uri_template req);
                     span = set_http_meta span (config_falcon w)
                              (no_meta\<lparr>m_status_code := status,
                                       m_response_headers := Some (resp_headers resp),
                                       m_route := Some route\<rparr>);
                     span = emit (config_falcon w) ''request'' span req resp;
                     span = finish span
                 in put_span self span w)))"

section \<open>The patch registry\<close>

text \<open>
  Modelled from the spec: the PatchState of section 3 and the operations \<^verbatim>\<open>patch\<close>,
  \<^verbatim>\<open>unpatch\<close>, \<^verbatim>\<open>is_patched\<close> and \<^verbatim>\<open>get_version\<close> of section 4.5. The patch module of
  the asyncpg integration is not among the sources; only the generated test case that
  names its functions is. An entry point of the target library is the original function
  or a tracing wrapper around an entry point; \<open>version\<close> is absent when the library
  is not installed.
\<close>

datatype 'f entry_point = Original 'f | Wrapper "'f entry_point"

record 'f patch_state =
  patched :: bool
  version :: "string option"
  entry_points :: "(string \<times> 'f entry_point) list"

fun restore :: "'f entry_point \<Rightarrow> 'f entry_point" where
  "restore (Wrapper e) = e"
| "restore (Original f) = Original f"

text \<open>The spans one call of an entry point emits: one per wrapper around the original.\<close>

fun spans_per_call :: "'f entry_point \<Rightarrow> nat" where
  "spans_per_call (Original f) = 0"
| "spans_per_call (Wrapper e) = Suc (spans_per_call e)"

definition patch :: "'f patch_state \<Rightarrow> 'f patch_state" where
  "patch s =
     (if patched s then s
      else if version s = None then s
      else s\<lparr>patched := True,
             entry_points := map (\<lambda>(n, e). (n, Wrapper e)) (entry_points s)\<rparr>)"

definition unpatch :: "'f patch_state \<Rightarrow> 'f patch_state" where
  "unpatch s =
     (if \<not> patched s then s
      else s\<lparr>patched := False,
             entry_points := map (\<lambda>(n, e). (n, restore e)) (entry_points s)\<rparr>)"

definition is_patched :: "'f patch_state \<Rightarrow> bool" where
  "is_patched s = patched s"

definition get_version :: "'f patch_state \<Rightarrow> string option" where
  "get_version s = version s"

text \<open>A pristine library: not patched, every entry point the original function.\<close>

definition pristine :: "'f patch_state \<Rightarrow> bool" where
  "pristine s = (\<not> patched s \<and> list_all (\<lambda>(n, e). spans_per_call e = 0) (entry_points s))"

section \<open>Sample values\<close>

text \<open>
  Concrete requests, spans and configurations on which the theorems below are
  instantiated.
\<close>

definition rename_hook :: hook where
  "rename_hook s req resp = s\<lparr>resource := Some (req_method req @ '' renamed'')\<rparr>"

definition seen_hook :: hook where
  "seen_hook s req resp =
     set_tag_str (USER_TAG ''seen'') (case resource s of None \<Rightarrow> [] | Some r \<Rightarrow> r) s"

definition sample_config :: falcon_config where
  "sample_config =
     \<lparr>distributed_tracing = True, integration_name = ''falcon'',
      get_analytics_sample_rate = (\<lambda>_. None), trace_header = (\<lambda>_. False),
      hooks = (\<lambda>_. [])\<rparr>"

definition sample_span :: span where
  "sample_span =
     \<lparr>name = ''falcon.request'', service = ''falcon'', span_type = WEB, parent = None,
      resource = Some ''GET app.Users'', meta = Map.empty, tracebacks = 0, finish_calls = 0\<rparr>"

definition sample_world :: world where
  "sample_world =
     \<lparr>config_falcon = sample_config,
      tracers = (\<lambda>_. \<lparr>current = Some sample_span, active_context = None\<rparr>),
      exc_info = None\<rparr>"

definition idle_world :: world where
  "idle_world =
     \<lparr>config_falcon = sample_config,
      tracers = (\<lambda>_. \<lparr>current = None, active_context = None\<rparr>),
      exc_info = None\<rparr>"

text \<open>The same process with two callbacks registered, and with an exception in flight.\<close>

definition hooked_world :: world where
  "hooked_world =
     sample_world\<lparr>config_falcon :=
       register ''request'' seen_hook (register ''request'' rename_hook sample_config)\<rparr>"

definition failing_world :: world where
  "failing_world = sample_world\<lparr>exc_info := Some \<lparr>exc_name = ''ValueError''\<rparr>\<rparr>"

definition sample_mw :: middleware where
  "sample_mw = \<lparr>mw_tracer = 0, mw_service = ''falcon''\<rparr>"

definition sample_request :: request where
  "sample_request =
     \<lparr>headers = [(''X-DATADOG-TRACE-ID'', ''7'')], req_method = ''GET'',
      url = ''http://localhost/api/users'', query_string = [],
      root_path = Some ''/api'', uri_template = ''/users''\<rparr>"

definition sample_response :: response where
  "sample_response = \<lparr>status = ''200 OK'', resp_headers = []\<rparr>"

definition sample_resource :: resource_obj where
  "sample_resource = \<lparr>r_module = ''app'', r_class_name = ''Users''\<rparr>"

definition sample_externals :: externals where
  "sample_externals =
     \<lparr>schematize_service_name = (\<lambda>n. n), schematize_url_operation = (\<lambda>n. n),
      extract_context =
        (\<lambda>hs. case map_of hs ''x-datadog-trace-id'' of
                None \<Rightarrow> None
              | Some v \<Rightarrow> Some \<lparr>trace_id = length v, parent_id = 0\<rparr>)\<rparr>"

definition sample_library :: "string patch_state" where
  "sample_library =
     \<lparr>patched = False, version = Some ''0.27.0'',
      entry_points = [(''connect'', Original ''connect''), (''execute'', Original ''execute'')]\<rparr>"

section \<open>Auxiliary facts\<close>

lemmas sample_defs = sample_world_def sample_mw_def sample_span_def sample_config_def
  sample_request_def sample_response_def sample_resource_def idle_world_def

lemmas eval_defs = process_response_def process_resource_def current_span_def put_span_def
  set_http_meta_def set_opt_tag_def set_header_tags_def set_tag_str_def set_tag_def
  finish_def emit_def no_meta_def py_or_def py_val_def name_of_def Let_def

subsection \<open>Splitting a string at a separator\<close>

lemma partition_str_takeWhile:
  "fst (partition_str sep s) = takeWhile (\<lambda>c. c \<noteq> sep) s"
  by (induction s) (auto split: prod.splits)

lemma partition_str_parts:
  "partition_str sep s = (h, m, t) \<Longrightarrow>
     s = h @ m @ t \<and> sep \<notin> set h \<and> (m = [sep] \<or> (m = [] \<and> t = []))"
  by (induction s arbitrary: h m t) (auto split: prod.splits if_splits)

subsection \<open>What recording HTTP metadata leaves alone\<close>

lemma header_tags_fold_meta:
  "(\<And>n. k \<noteq> mk n) \<Longrightarrow>
   meta (foldl (\<lambda>s (n, v). if trace_header cfg n then set_tag_str (mk n) v s else s) s h) k
     = meta s k"
  by (induction h arbitrary: s) (auto simp: set_tag_str_def set_tag_def)

lemma header_tags_fold_rest:
  "tracebacks (foldl (\<lambda>s (n, v). if trace_header cfg n then set_tag_str (mk n) v s else s) s h)
     = tracebacks s
   \<and> finish_calls (foldl (\<lambda>s (n, v). if trace_header cfg n then set_tag_str (mk n) v s else s) s h)
     = finish_calls s
   \<and> resource (foldl (\<lambda>s (n, v). if trace_header cfg n then set_tag_str (mk n) v s else s) s h)
     = resource s"
  by (induction h arbitrary: s) (auto simp: set_tag_str_def set_tag_def)

lemma set_header_tags_meta:
  "(\<And>n. k \<noteq> mk n) \<Longrightarrow> meta (set_header_tags cfg mk hs s) k = meta s k"
  by (cases hs) (simp_all add: set_header_tags_def header_tags_fold_meta)

lemma set_header_tags_rest:
  "tracebacks (set_header_tags cfg mk hs s) = tracebacks s"
  "finish_calls (set_header_tags cfg mk hs s) = finish_calls s"
  "resource (set_header_tags cfg mk hs s) = resource s"
  by (cases hs; simp add: set_header_tags_def header_tags_fold_rest)+

lemma set_opt_tag_rest:
  "tracebacks (set_opt_tag k v s) = tracebacks s"
  "finish_calls (set_opt_tag k v s) = finish_calls s"
  "resource (set_opt_tag k v s) = resource s"
  by (cases v; simp add: set_opt_tag_def set_tag_str_def set_tag_def)+

lemma set_opt_tag_meta:
  "meta (set_opt_tag k v s) k' =
     (if k' = k \<and> v \<noteq> None then map_option StrVal v else meta s k')"
  by (cases v) (simp_all add: set_opt_tag_def set_tag_str_def set_tag_def)

lemma set_http_meta_rest:
  "tracebacks (set_http_meta s cfg a) = tracebacks s"
  "finish_calls (set_http_meta s cfg a) = finish_calls s"
  "resource (set_http_meta s cfg a) = resource s"
  by (simp_all add: set_http_meta_def set_header_tags_rest set_opt_tag_rest)

lemma set_http_meta_status:
  "meta (set_http_meta s cfg a) STATUS_CODE =
     (case m_status_code a of None \<Rightarrow> meta s STATUS_CODE | Some v \<Rightarrow> Some (StrVal v))"
  by (simp add: set_http_meta_def set_header_tags_meta set_opt_tag_meta split: option.splits)

lemma set_http_meta_route:
  "meta (set_http_meta s cfg a) HTTP_ROUTE =
     (case m_route a of None \<Rightarrow> meta s HTTP_ROUTE | Some v \<Rightarrow> Some (StrVal v))"
  by (simp add: set_http_meta_def set_header_tags_meta set_opt_tag_meta split: option.splits)

lemma current_put_span:
  "current_span (tracers (put_span self s w) (mw_tracer self)) = Some s"
  by (simp add: put_span_def current_span_def)

subsection \<open>The matched-route path of \<open>process_response\<close> in one equation\<close>

lemma process_response_matched:
  assumes "current_span (tracers w (mw_tracer self)) = Some s"
  shows "process_response self w req resp (Some r) rs =
     put_span self
       (finish (emit (config_falcon w) ''request''
          (set_http_meta
             (snd (if exc_info w \<noteq> None \<and> (rs = None \<or> rs = Some False)
                   then detect_and_set_status_error (the (exc_info w)) s
                   else (Some (fst (partition_str CHR '' '' (status resp))), s)))
             (config_falcon w)
             (no_meta\<lparr>m_status_code :=
                        fst (if exc_info w \<noteq> None \<and> (rs = None \<or> rs = Some False)
                             then detect_and_set_status_error (the (exc_info w)) s
                             else (Some (fst (partition_str CHR '' '' (status resp))), s)),
                      m_response_headers := Some (resp_headers resp),
                      m_route := Some (py_or (root_path req) (uri_template req))\<rparr>))
          req resp)) w"
  using assms
  by (auto simp: process_response_def Let_def split: option.splits prod.splits)

section \<open>Parsing the status line\<close>

text \<open>
  Claim C5. For every status line, the status code that \<open>process_response\<close> computes in
  line 66 is the text before the first space of the line: it is the longest prefix without
  a space, it is the whole line when the line has no space, and otherwise the line is that
  code, one space and a rest. \<open>partition_str\<close> is total, as \<^verbatim>\<open>str.partition\<close> is on
  strings: the parse has no failing branch. On the matched-route path with no exception in
  flight, this code is the status recorded on the span that is handed to the hooks.
\<close>

theorem status_code_is_text_before_first_space:
  "fst (partition_str CHR '' '' line) = takeWhile (\<lambda>c. c \<noteq> CHR '' '') line
   \<and> (CHR '' '' \<notin> set line \<longrightarrow> fst (partition_str CHR '' '' line) = line)
   \<and> (CHR '' '' \<in> set line \<longrightarrow>
        (\<exists>rest. line = fst (partition_str CHR '' '' line) @ CHR '' '' # rest)
        \<and> CHR '' '' \<notin> set (fst (partition_str CHR '' '' line)))
   \<and> (current_span (tracers w (mw_tracer self)) = Some s \<and> exc_info w = None
        \<and> status resp = line \<longrightarrow>
        (\<exists>s1. current_span
                 (tracers (process_response self w req resp (Some r) rs) (mw_tracer self))
                 = Some (finish (emit (config_falcon w) ''request'' s1 req resp))
              \<and> meta s1 STATUS_CODE = Some (StrVal (takeWhile (\<lambda>c. c \<noteq> CHR '' '') line))))"
proof -
  have a: "fst (partition_str CHR '' '' line) = takeWhile (\<lambda>c. c \<noteq> CHR '' '') line"
    by (rule partition_str_takeWhile)
  have b: "CHR '' '' \<notin> set line \<longrightarrow> fst (partition_str CHR '' '' line) = line"
    unfolding a by (auto simp: takeWhile_eq_all_conv)
  have c: "CHR '' '' \<in> set line \<longrightarrow>
        (\<exists>rest. line = fst (partition_str CHR '' '' line) @ CHR '' '' # rest)
        \<and> CHR '' '' \<notin> set (fst (partition_str CHR '' '' line))"
  proof
    assume sp: "CHR '' '' \<in> set line"
    obtain h m t where p: "partition_str CHR '' '' line = (h, m, t)"
      by (cases "partition_str CHR '' '' line") auto
    from partition_str_parts[OF p] sp have "line = h @ CHR '' '' # t" "CHR '' '' \<notin> set h"
      by auto
    with p show "(\<exists>rest. line = fst (partition_str CHR '' '' line) @ CHR '' '' # rest)
        \<and> CHR '' '' \<notin> set (fst (partition_str CHR '' '' line))" by auto
  qed
  have d: "current_span (tracers w (mw_tracer self)) = Some s \<and> exc_info w = None
        \<and> status resp = line \<longrightarrow>
        (\<exists>s1. current_span
                 (tracers (process_response self w req resp (Some r) rs) (mw_tracer self))
                 = Some (finish (emit (config_falcon w) ''request'' s1 req resp))
              \<and> meta s1 STATUS_CODE = Some (StrVal (takeWhile (\<lambda>c. c \<noteq> CHR '' '') line)))"
  proof
    assume h: "current_span (tracers w (mw_tracer self)) = Some s \<and> exc_info w = None
        \<and> status resp = line"
    then have cs: "current_span (tracers w (mw_tracer self)) = Some s" by simp
    let ?s1 = "set_http_meta s (config_falcon w)
                 (no_meta\<lparr>m_status_code := Some (fst (partition_str CHR '' '' (status resp))),
                          m_response_headers := Some (resp_headers resp),
                          m_route := Some (py_or (root_path req) (uri_template req))\<rparr>)"
    have "current_span (tracers (process_response self w req resp (Some r) rs) (mw_tracer self))
            = Some (finish (emit (config_falcon w) ''request'' ?s1 req resp))"
      using h by (simp add: process_response_matched[OF cs] current_put_span)
    moreover have "meta ?s1 STATUS_CODE = Some (StrVal (takeWhile (\<lambda>c. c \<noteq> CHR '' '') line))"
      using h by (simp add: set_http_meta_status a)
    ultimately show "\<exists>s1. current_span
                 (tracers (process_response self w req resp (Some r) rs) (mw_tracer self))
                 = Some (finish (emit (config_falcon w) ''request'' s1 req resp))
              \<and> meta s1 STATUS_CODE = Some (StrVal (takeWhile (\<lambda>c. c \<noteq> CHR '' '') line))"
      by blast
  qed
  from a b c d show ?thesis by blast
qed

text \<open>The status line \<^verbatim>\<open>200 OK\<close> of a routed request without an exception gives \<^verbatim>\<open>200\<close>.\<close>

theorem status_code_is_text_before_first_space_witness:
  "CHR '' '' \<in> set ''200 OK''
   \<and> fst (partition_str CHR '' '' ''200 OK'') = ''200''
   \<and> current_span (tracers sample_world (mw_tracer sample_mw)) = Some sample_span
   \<and> exc_info sample_world = None \<and> status sample_response = ''200 OK''
   \<and> map_option (\<lambda>s. meta s STATUS_CODE)
        (current_span (tracers
           (process_response sample_mw sample_world sample_request sample_response
              (Some sample_resource) None) (mw_tracer sample_mw)))
       = Some (Some (StrVal ''200''))"
  using status_code_is_text_before_first_space
          [where line = "''200 OK''" and w = sample_world and self = sample_mw
             and s = sample_span and resp = sample_response and req = sample_request
             and r = sample_resource and rs = None]
  by (simp add: sample_defs eval_defs)

section \<open>The unmatched route\<close>

text \<open>
  Claim C2. When \<open>process_response\<close> runs with an active span and no resolved resource,
  then whatever exception is in flight, whatever \<open>req_succeeded\<close> is and whatever
  callbacks are registered, the span is left with the resource \<^verbatim>\<open><METHOD> 404\<close>, the
  status tag \<^verbatim>\<open>404\<close> and one more call of \<^verbatim>\<open>finish\<close>, and with nothing else changed: no
  traceback is captured, no route or response header is recorded and no callback has run.
  The tracers, and with them the span, come out the same under any other exception
  state \<open>e\<close>, configuration \<open>cfg\<close> and flag \<open>rs'\<close>.
\<close>

theorem unmatched_route_is_404:
  assumes "current_span (tracers w (mw_tracer self)) = Some s"
  shows "process_response self w req resp None rs =
           put_span self
             (s\<lparr>resource := Some (req_method req @ '' 404''),
                meta := (meta s)(STATUS_CODE \<mapsto> StrVal ''404''),
                finish_calls := Suc (finish_calls s)\<rparr>) w
       \<and> tracers (process_response self (w\<lparr>exc_info := e, config_falcon := cfg\<rparr>)
                    req resp None rs')
           = tracers (process_response self w req resp None rs)"
  using assms
  by (simp add: process_response_def Let_def set_tag_def py_val_def finish_def put_span_def)

text \<open>A \<^verbatim>\<open>GET\<close> request to an unmatched route, reported as succeeded.\<close>

theorem unmatched_route_is_404_witness:
  "current_span (tracers sample_world (mw_tracer sample_mw)) = Some sample_span
   \<and> map_option resource
        (current_span (tracers
           (process_response sample_mw sample_world sample_request sample_response None
              (Some True))
           (mw_tracer sample_mw)))
       = Some (Some ''GET 404'')
   \<and> map_option (\<lambda>s. (meta s STATUS_CODE, finish_calls s, tracebacks s, meta s HTTP_ROUTE))
        (current_span (tracers
           (process_response sample_mw sample_world sample_request sample_response None
              (Some True))
           (mw_tracer sample_mw)))
       = Some (Some (StrVal ''404''), 1, 0, None)"
  using unmatched_route_is_404
          [where w = sample_world and self = sample_mw and s = sample_span
             and req = sample_request and resp = sample_response and rs = "Some True"]
  by (simp add: sample_defs eval_defs)

section \<open>No active span\<close>

text \<open>
  Claim C6. When the tracer reports no active span, \<open>process_resource\<close> and
  \<open>process_response\<close> return at once: the state of the process, with every span and
  tracer in it, is what it was. Neither function has a failing branch on that path, and
  neither ever writes to the request or the response, which they only read.
\<close>

theorem no_active_span_is_ignored:
  assumes "current_span (tracers w (mw_tracer self)) = None"
  shows "process_resource self w req resp res params = w
       \<and> process_response self w req resp res_opt rs = w"
  using assms by (simp add: process_resource_def process_response_def)

theorem no_active_span_is_ignored_witness:
  "current_span (tracers idle_world (mw_tracer sample_mw)) = None
   \<and> process_resource sample_mw idle_world sample_request sample_response sample_resource []
       = idle_world
   \<and> process_response sample_mw idle_world sample_request sample_response
       (Some sample_resource) None = idle_world"
  using no_active_span_is_ignored
          [where w = idle_world and self = sample_mw and req = sample_request
             and resp = sample_response and res = sample_resource and params = "[]"
             and res_opt = "Some sample_resource" and rs = None]
  by (simp add: sample_defs current_span_def)

section \<open>The route\<close>

text \<open>
  Claim C1. The route is claimed to be the root path followed by the URI template, a
  missing or empty root path counting as the empty string. Line 90 is
  \<^verbatim>\<open>req.root_path or "" + req.uri_template\<close>, which Python reads as
  \<^verbatim>\<open>req.root_path or ("" + req.uri_template)\<close>: a non-empty root path is the whole route
  and the template is dropped. For the root path \<^verbatim>\<open>/api\<close> and the template \<^verbatim>\<open>/users\<close> the
  route recorded on the span is \<^verbatim>\<open>/api\<close>, which is not \<^verbatim>\<open>/api/users\<close>.
\<close>

theorem route_drops_uri_template_after_root_path:
  "root_path sample_request = Some ''/api'' \<and> uri_template sample_request = ''/users''
   \<and> map_option (\<lambda>s. meta s HTTP_ROUTE)
        (current_span (tracers
           (process_response sample_mw sample_world sample_request sample_response
              (Some sample_resource) None) (mw_tracer sample_mw)))
       = Some (Some (StrVal ''/api''))
   \<and> ''/api'' \<noteq> ''/api'' @ ''/users''"
  by (simp add: sample_defs eval_defs)

section \<open>Error classification\<close>

lemma detect_and_set_status_error_cases:
  "detect_and_set_status_error e s =
     (if is_404 e then (Some ''404'', s) else (Some ''500'', set_traceback s))"
  by (simp add: detect_and_set_status_error_def)

text \<open>
  Claim C3. On the matched-route path, with \<open>s1\<close> the span as it is handed to the
  hooks: the error classification runs exactly when an exception type is in flight and
  \<open>req_succeeded\<close> is \<^verbatim>\<open>None\<close> or \<^verbatim>\<open>False\<close>. When it runs, a type whose name contains
  \<^verbatim>\<open>HTTPNotFound\<close> gives the status \<^verbatim>\<open>404\<close> and no call of \<^verbatim>\<open>set_traceback\<close>; any other
  type gives the status \<^verbatim>\<open>500\<close> and one call of \<^verbatim>\<open>set_traceback\<close>. When it does not run,
  the status is the one parsed from the status line and no traceback is captured. Of the
  two outcomes of \<open>detect_and_set_status_error\<close> exactly one occurs for every exception
  type; it never falls through to \<^verbatim>\<open>None\<close>.
\<close>

theorem error_classification_is_exclusive:
  assumes "current_span (tracers w (mw_tracer self)) = Some s"
  shows "(\<exists>s1. current_span
                (tracers (process_response self w req resp (Some r) rs) (mw_tracer self))
               = Some (finish (emit (config_falcon w) ''request'' s1 req resp))
          \<and> (case exc_info w of
                None \<Rightarrow>
                  meta s1 STATUS_CODE = Some (StrVal (fst (partition_str CHR '' '' (status resp))))
                  \<and> tracebacks s1 = tracebacks s
              | Some e \<Rightarrow>
                  if rs = None \<or> rs = Some False then
                    (if sublist ''HTTPNotFound'' (exc_name e)
                     then meta s1 STATUS_CODE = Some (StrVal ''404'')
                          \<and> tracebacks s1 = tracebacks s
                     else meta s1 STATUS_CODE = Some (StrVal ''500'')
                          \<and> tracebacks s1 = Suc (tracebacks s))
                  else
                    meta s1 STATUS_CODE = Some (StrVal (fst (partition_str CHR '' '' (status resp))))
                    \<and> tracebacks s1 = tracebacks s))
       \<and> (\<forall>e x. (detect_and_set_status_error e x = (Some ''404'', x)
                    \<and> sublist ''HTTPNotFound'' (exc_name e))
                \<noteq> (detect_and_set_status_error e x = (Some ''500'', set_traceback x)
                    \<and> \<not> sublist ''HTTPNotFound'' (exc_name e)))"
proof -
  let ?c = "if exc_info w \<noteq> None \<and> (rs = None \<or> rs = Some False)
            then detect_and_set_status_error (the (exc_info w)) s
            else (Some (fst (partition_str CHR '' '' (status resp))), s)"
  let ?s1 = "set_http_meta (snd ?c) (config_falcon w)
               (no_meta\<lparr>m_status_code := fst ?c,
                        m_response_headers := Some (resp_headers resp),
                        m_route := Some (py_or (root_path req) (uri_template req))\<rparr>)"
  have run: "current_span
                (tracers (process_response self w req resp (Some r) rs) (mw_tracer self))
               = Some (finish (emit (config_falcon w) ''request'' ?s1 req resp))"
    by (simp only: process_response_matched[OF assms] current_put_span)
  have st: "meta ?s1 STATUS_CODE = map_option StrVal (fst ?c)"
    by (simp add: set_http_meta_status detect_and_set_status_error_cases)
  have tb: "tracebacks ?s1 = tracebacks (snd ?c)"
    by (simp only: set_http_meta_rest)
  have cls: "case exc_info w of
                None \<Rightarrow>
                  meta ?s1 STATUS_CODE = Some (StrVal (fst (partition_str CHR '' '' (status resp))))
                  \<and> tracebacks ?s1 = tracebacks s
              | Some e \<Rightarrow>
                  if rs = None \<or> rs = Some False then
                    (if sublist ''HTTPNotFound'' (exc_name e)
                     then meta ?s1 STATUS_CODE = Some (StrVal ''404'')
                          \<and> tracebacks ?s1 = tracebacks s
                     else meta ?s1 STATUS_CODE = Some (StrVal ''500'')
                          \<and> tracebacks ?s1 = Suc (tracebacks s))
                  else
                    meta ?s1 STATUS_CODE = Some (StrVal (fst (partition_str CHR '' '' (status resp))))
                    \<and> tracebacks ?s1 = tracebacks s"
    unfolding st tb
    by (auto simp: detect_and_set_status_error_cases is_404_def set_traceback_def
          split: option.splits)
  have excl: "\<forall>e x. (detect_and_set_status_error e x = (Some ''404'', x)
                    \<and> sublist ''HTTPNotFound'' (exc_name e))
                \<noteq> (detect_and_set_status_error e x = (Some ''500'', set_traceback x)
                    \<and> \<not> sublist ''HTTPNotFound'' (exc_name e))"
    by (simp add: detect_and_set_status_error_cases is_404_def)
  from run cls excl show ?thesis by blast
qed

lemmas sublist_eval = sublist_code prefix_code

text \<open>A handler that raised \<^verbatim>\<open>ValueError\<close>, reported with \<^verbatim>\<open>req_succeeded=False\<close>.\<close>

theorem error_classification_is_exclusive_witness:
  "current_span (tracers failing_world (mw_tracer sample_mw)) = Some sample_span
   \<and> exc_info failing_world = Some \<lparr>exc_name = ''ValueError''\<rparr>
   \<and> map_option (\<lambda>s. (meta s STATUS_CODE, tracebacks s))
        (current_span (tracers
           (process_response sample_mw failing_world sample_request sample_response
              (Some sample_resource) (Some False)) (mw_tracer sample_mw)))
       = Some (Some (StrVal ''500''), 1)"
  using error_classification_is_exclusive
          [where w = failing_world and self = sample_mw and s = sample_span
             and req = sample_request and resp = sample_response
             and r = sample_resource and rs = "Some False"]
  by (simp add: failing_world_def sample_defs eval_defs detect_and_set_status_error_def
        is_404_def set_traceback_def sublist_eval)

section \<open>Header names are case-folded before extraction\<close>

lemma lower_chr_idem: "lower_chr (lower_chr c) = lower_chr c"
proof (cases "65 \<le> (of_char c :: nat) \<and> (of_char c :: nat) \<le> 90")
  case True
  then have "(of_char (char_of (of_char c + 32 :: nat)) :: nat) = of_char c + 32"
    by simp
  with True show ?thesis by (simp add: lower_chr_def Let_def)
next
  case False
  then show ?thesis by (auto simp: lower_chr_def Let_def)
qed

lemma lower_idem: "lower (lower s) = lower s"
  by (simp add: lower_def lower_chr_idem)

lemma dict_set_keys: "set (map fst (dict_set k v d)) = insert k (set (map fst d))"
  by (induction d) (force split: if_splits)+

lemma dict_set_distinct: "distinct (map fst d) \<Longrightarrow> distinct (map fst (dict_set k v d))"
  by (induction d) (auto simp: dict_set_keys simp del: set_map)

lemma dict_set_fresh: "k \<notin> set (map fst d) \<Longrightarrow> dict_set k v d = d @ [(k, v)]"
  by (induction d) auto

lemma fold_dict_set_keys:
  "set (map fst (foldl (\<lambda>d (k, v). dict_set k v d) acc ps))
     = set (map fst acc) \<union> set (map fst ps)"
  by (induction ps arbitrary: acc) (auto simp: dict_set_keys simp del: set_map split: prod.splits)

lemma fold_dict_set_distinct:
  "distinct (map fst acc) \<Longrightarrow> distinct (map fst (foldl (\<lambda>d (k, v). dict_set k v d) acc ps))"
  by (induction ps arbitrary: acc) (auto simp: dict_set_distinct split: prod.splits)

lemma fold_dict_set_append:
  "distinct (map fst (acc @ ps)) \<Longrightarrow> foldl (\<lambda>d (k, v). dict_set k v d) acc ps = acc @ ps"
proof (induction ps arbitrary: acc)
  case Nil
  then show ?case by simp
next
  case (Cons p ps)
  obtain k v where p: "p = (k, v)" by (cases p)
  from Cons.prems have fresh: "k \<notin> set (map fst acc)" by (auto simp: p)
  from Cons.prems have "distinct (map fst ((acc @ [(k, v)]) @ ps))" by (auto simp: p)
  from Cons.IH[OF this] show ?case by (simp add: p dict_set_fresh[OF fresh])
qed

lemma dict_of_pairs_distinct: "distinct (map fst (dict_of_pairs ps))"
  by (simp add: dict_of_pairs_def fold_dict_set_distinct)

lemma dict_of_pairs_keys: "set (map fst (dict_of_pairs ps)) = set (map fst ps)"
  by (simp add: dict_of_pairs_def fold_dict_set_keys del: set_map)

lemma dict_of_pairs_dict: "distinct (map fst d) \<Longrightarrow> dict_of_pairs d = d"
  using fold_dict_set_append[of "[]" d] by (simp add: dict_of_pairs_def)

lemma lower_keys_are_lower: "k \<in> set (map fst (lower_keys hs)) \<Longrightarrow> lower k = k"
  unfolding lower_keys_def dict_of_pairs_keys by (auto simp: lower_idem)

lemma map_lower_fixed:
  "(\<And>k. k \<in> set (map fst d) \<Longrightarrow> lower k = k) \<Longrightarrow> map (\<lambda>(k, v). (lower k, v)) d = d"
  by (induction d) auto

lemma lower_keys_idem: "lower_keys (lower_keys hs) = lower_keys hs"
proof -
  have "map (\<lambda>(k, v). (lower k, v)) (lower_keys hs) = lower_keys hs"
    by (rule map_lower_fixed) (rule lower_keys_are_lower)
  then have "lower_keys (lower_keys hs) = dict_of_pairs (lower_keys hs)"
    by (simp add: lower_keys_def)
  also have "\<dots> = lower_keys hs"
    by (rule dict_of_pairs_dict) (simp add: lower_keys_def dict_of_pairs_distinct)
  finally show ?thesis .
qed

lemma lower_keys_of_lowered:
  "lower_keys (map (\<lambda>(k, v). (lower k, v)) hs) = lower_keys hs"
proof -
  have "map (\<lambda>(k, v). (lower k, v)) (map (\<lambda>(k, v). (lower k, v)) hs)
          = map (\<lambda>(k, v). (lower k, v)) hs"
    by (induction hs) (auto simp: lower_idem)
  then show ?thesis unfolding lower_keys_def by (simp only:)
qed

lemma set_header_tags_parent: "parent (set_header_tags cfg mk hs s) = parent s"
proof -
  have "parent (foldl (\<lambda>s (n, v). if trace_header cfg n then set_tag_str (mk n) v s else s) s h)
          = parent s" for h
    by (induction h arbitrary: s) (auto simp: set_tag_str_def set_tag_def)
  then show ?thesis by (cases hs) (simp_all add: set_header_tags_def)
qed

lemma set_opt_tag_parent: "parent (set_opt_tag k v s) = parent s"
  by (cases v) (simp_all add: set_opt_tag_def set_tag_str_def set_tag_def)

lemma set_http_meta_parent: "parent (set_http_meta s cfg a) = parent s"
  by (simp add: set_http_meta_def set_header_tags_parent set_opt_tag_parent)

lemma process_request_context:
  "active_context (tracers (process_request ext self w req resp) (mw_tracer self))
     = active_context (activate_distributed_headers ext (tracers w (mw_tracer self))
         (config_falcon w) (lower_keys (headers req)))"
  by (simp add: process_request_def Let_def trace_def put_span_def)

lemma process_request_parent:
  "map_option parent (current_span (tracers (process_request ext self w req resp) (mw_tracer self)))
     = Some (active_context (activate_distributed_headers ext (tracers w (mw_tracer self))
         (config_falcon w) (lower_keys (headers req))))"
  by (simp add: process_request_def Let_def trace_def put_span_def current_span_def
        set_http_meta_parent set_tag_str_def set_tag_def)

text \<open>
  Claim C4. \<open>process_request\<close> hands the context extraction the header mapping with
  its keys lower-cased. Lower-casing the keys of a mapping whose keys are lower-cased
  already changes nothing, whether that mapping is the dictionary \<open>lower_keys hs\<close> or
  the plain list of pairs with lower-cased keys. So for every header mapping, every
  propagation format and every configuration, the context that is activated and the
  parent of the span that is created are the same for a request and for the request with
  its header keys lower-cased.
\<close>

theorem header_case_is_irrelevant_to_extraction:
  "lower_keys (lower_keys hs) = lower_keys hs
   \<and> lower_keys (map (\<lambda>(k, v). (lower k, v)) hs) = lower_keys hs
   \<and> active_context
       (tracers (process_request ext self w (req\<lparr>headers := lower_keys (headers req)\<rparr>) resp)
          (mw_tracer self))
     = active_context (tracers (process_request ext self w req resp) (mw_tracer self))
   \<and> map_option parent
       (current_span
          (tracers (process_request ext self w (req\<lparr>headers := lower_keys (headers req)\<rparr>) resp)
             (mw_tracer self)))
     = map_option parent
         (current_span (tracers (process_request ext self w req resp) (mw_tracer self)))"
  by (simp add: lower_keys_idem lower_keys_of_lowered process_request_context
        process_request_parent)

text \<open>An upper-cased header name, as Falcon delivers it, is found under its lower-cased name.\<close>

theorem header_case_is_irrelevant_to_extraction_witness:
  "lower_keys (headers sample_request) = [(''x-datadog-trace-id'', ''7'')]
   \<and> active_context
       (tracers (process_request sample_externals sample_mw idle_world sample_request
                   sample_response) (mw_tracer sample_mw))
     = Some \<lparr>trace_id = 1, parent_id = 0\<rparr>
   \<and> active_context
       (tracers (process_request sample_externals sample_mw idle_world
                   (sample_request\<lparr>headers := [(''x-datadog-trace-id'', ''7'')]\<rparr>)
                   sample_response) (mw_tracer sample_mw))
     = Some \<lparr>trace_id = 1, parent_id = 0\<rparr>"
proof -
  have lk: "lower_keys (headers sample_request) = [(''x-datadog-trace-id'', ''7'')]"
    by code_simp
  have "active_context
       (tracers (process_request sample_externals sample_mw idle_world sample_request
                   sample_response) (mw_tracer sample_mw))
     = Some \<lparr>trace_id = 1, parent_id = 0\<rparr>"
    unfolding process_request_context lk
    by (simp add: activate_distributed_headers_def sample_externals_def idle_world_def
          sample_config_def sample_mw_def)
  with lk header_case_is_irrelevant_to_extraction
         [where hs = "headers sample_request" and ext = sample_externals and self = sample_mw
            and w = idle_world and req = sample_request and resp = sample_response]
  show ?thesis by simp
qed

section \<open>Hooks run before the span is finished\<close>

lemma foldl_hooks_open:
  "(\<forall>h\<in>set hs. \<forall>x. is_open x \<longrightarrow> is_open (h x req resp)) \<Longrightarrow> is_open s \<Longrightarrow>
   is_open (foldl (\<lambda>x h. h x req resp) s hs)"
  by (induction hs arbitrary: s) auto

lemma foldl_hooks_finish_calls:
  "(\<forall>h\<in>set hs. \<forall>x rq rp. finish_calls (h x rq rp) = finish_calls x) \<Longrightarrow>
   finish_calls (foldl (\<lambda>x h. h x req resp) s hs) = finish_calls s"
  by (induction hs arbitrary: s) auto

lemma span_at_emit_finish_calls:
  "finish_calls (set_http_meta
             (snd (if exc_info w \<noteq> None \<and> (rs = None \<or> rs = Some False)
                   then detect_and_set_status_error (the (exc_info w)) s
                   else (st, s))) cfg a) = finish_calls s"
  by (simp add: set_http_meta_rest detect_and_set_status_error_def set_traceback_def)

text \<open>
  Claim C7. On the matched-route path the span \<open>s0\<close> that \<open>process_response\<close> hands to
  \<^verbatim>\<open>emit\<close> has had no call of \<^verbatim>\<open>finish\<close> from the middleware; the callbacks of the event
  \<^verbatim>\<open>request\<close> are applied to it one after the other in the order of the registry, and
  \<^verbatim>\<open>finish\<close> is applied to what the last callback leaves. If the span was open when
  \<open>process_response\<close> started and no callback closes an open span, every callback is
  handed an open span. Registering a callback puts it behind the ones registered before,
  and it runs on what they leave.
\<close>

theorem hooks_run_in_order_before_finish:
  assumes "current_span (tracers w (mw_tracer self)) = Some s"
  shows "(\<exists>s0. finish_calls s0 = finish_calls s
          \<and> current_span
              (tracers (process_response self w req resp (Some r) rs) (mw_tracer self))
             = Some (finish (emit (config_falcon w) ''request'' s0 req resp))
          \<and> emit (config_falcon w) ''request'' s0 req resp
             = foldl (\<lambda>x h. h x req resp) s0 (hooks (config_falcon w) ''request'')
          \<and> (is_open s
               \<and> (\<forall>h\<in>set (hooks (config_falcon w) ''request'').
                     \<forall>x. is_open x \<longrightarrow> is_open (h x req resp))
              \<longrightarrow> (\<forall>i<length (hooks (config_falcon w) ''request'').
                     is_open (foldl (\<lambda>x h. h x req resp) s0
                                (take i (hooks (config_falcon w) ''request''))))))
       \<and> (\<forall>cfg ev h x. hooks (register ev h cfg) ev = hooks cfg ev @ [h]
              \<and> emit (register ev h cfg) ev x req resp = h (emit cfg ev x req resp) req resp)"
proof -
  let ?hs = "hooks (config_falcon w) ''request''"
  let ?s0 = "set_http_meta
             (snd (if exc_info w \<noteq> None \<and> (rs = None \<or> rs = Some False)
                   then detect_and_set_status_error (the (exc_info w)) s
                   else (Some (fst (partition_str CHR '' '' (status resp))), s)))
             (config_falcon w)
             (no_meta\<lparr>m_status_code :=
                        fst (if exc_info w \<noteq> None \<and> (rs = None \<or> rs = Some False)
                             then detect_and_set_status_error (the (exc_info w)) s
                             else (Some (fst (partition_str CHR '' '' (status resp))), s)),
                      m_response_headers := Some (resp_headers resp),
                      m_route := Some (py_or (root_path req) (uri_template req))\<rparr>)"
  have fc: "finish_calls ?s0 = finish_calls s"
    by (rule span_at_emit_finish_calls)
  have run: "current_span
              (tracers (process_response self w req resp (Some r) rs) (mw_tracer self))
             = Some (finish (emit (config_falcon w) ''request'' ?s0 req resp))"
    by (simp only: process_response_matched[OF assms] current_put_span)
  have em: "emit (config_falcon w) ''request'' ?s0 req resp = foldl (\<lambda>x h. h x req resp) ?s0 ?hs"
    by (simp add: emit_def)
  have obs: "is_open s \<and> (\<forall>h\<in>set ?hs. \<forall>x. is_open x \<longrightarrow> is_open (h x req resp))
              \<longrightarrow> (\<forall>i<length ?hs. is_open (foldl (\<lambda>x h. h x req resp) ?s0 (take i ?hs)))"
  proof (intro impI allI)
    fix i
    assume h: "is_open s \<and> (\<forall>h\<in>set ?hs. \<forall>x. is_open x \<longrightarrow> is_open (h x req resp))"
    then have o: "is_open ?s0" using fc by (simp add: is_open_def)
    from h have "\<forall>h\<in>set (take i ?hs). \<forall>x. is_open x \<longrightarrow> is_open (h x req resp)"
      by (meson in_set_takeD)
    from foldl_hooks_open[OF this o]
    show "is_open (foldl (\<lambda>x h. h x req resp) ?s0 (take i ?hs))" .
  qed
  have reg: "\<forall>cfg ev h x. hooks (register ev h cfg) ev = hooks cfg ev @ [h]
              \<and> emit (register ev h cfg) ev x req resp = h (emit cfg ev x req resp) req resp"
    by (simp add: register_def emit_def)
  from fc run em obs reg show ?thesis by blast
qed

text \<open>
  Two callbacks: the first renames the resource, the second records the resource it sees.
  The second sees the new name, and both changes are on the finished span.
\<close>

theorem hooks_run_in_order_before_finish_witness:
  "current_span (tracers hooked_world (mw_tracer sample_mw)) = Some sample_span
   \<and> hooks (config_falcon hooked_world) ''request'' = [rename_hook, seen_hook]
   \<and> map_option (\<lambda>s. (resource s, meta s (USER_TAG ''seen''), finish_calls s))
        (current_span (tracers
           (process_response sample_mw hooked_world sample_request sample_response
              (Some sample_resource) None) (mw_tracer sample_mw)))
       = Some (Some ''GET renamed'', Some (StrVal ''GET renamed''), 1)"
  using hooks_run_in_order_before_finish
          [where w = hooked_world and self = sample_mw and s = sample_span
             and req = sample_request and resp = sample_response
             and r = sample_resource and rs = None]
  by (simp add: hooked_world_def register_def rename_hook_def seen_hook_def
        sample_defs eval_defs)

section \<open>The span is finished once\<close>

lemma process_request_opens_span:
  "\<exists>sp. current_span (tracers (process_request ext self w req resp) (mw_tracer self)) = Some sp
        \<and> finish_calls sp = 0"
  by (simp add: process_request_def Let_def trace_def put_span_def current_span_def
        set_http_meta_rest set_tag_str_def set_tag_def)

lemma process_request_config:
  "config_falcon (process_request ext self w req resp) = config_falcon w"
  by (simp add: process_request_def Let_def trace_def put_span_def split: prod.splits)

lemma process_resource_keeps_finish_calls:
  assumes "current_span (tracers w (mw_tracer self)) = Some sp"
  shows "\<exists>sp'. current_span (tracers (process_resource self w req resp res params) (mw_tracer self))
            = Some sp' \<and> finish_calls sp' = finish_calls sp"
  using assms by (simp add: process_resource_def current_put_span)

lemma process_resource_config:
  "config_falcon (process_resource self w req resp res params) = config_falcon w"
  by (simp add: process_resource_def put_span_def split: option.splits)

lemma process_response_finishes_once:
  assumes cs: "current_span (tracers w (mw_tracer self)) = Some sp"
      and hk: "\<forall>h\<in>set (hooks (config_falcon w) ''request'').
                 \<forall>x rq rp. finish_calls (h x rq rp) = finish_calls x"
  shows "\<exists>sp'. current_span (tracers (process_response self w req resp res_opt rs) (mw_tracer self))
            = Some sp' \<and> finish_calls sp' = Suc (finish_calls sp)"
proof (cases res_opt)
  case None
  with cs show ?thesis
    by (simp add: process_response_def Let_def current_put_span finish_def set_tag_def)
next
  case (Some r)
  show ?thesis
    unfolding Some process_response_matched[OF cs] current_put_span
    by (simp add: finish_def emit_def foldl_hooks_finish_calls[OF hk] set_http_meta_rest
          detect_and_set_status_error_def set_traceback_def)
qed

text \<open>
  Claim C8. Provided no registered callback calls \<^verbatim>\<open>finish\<close> itself: the span that
  \<open>process_request\<close> creates has no call of \<^verbatim>\<open>finish\<close>, \<open>process_resource\<close> adds none, and
  after \<open>process_response\<close> it has exactly one, on the unmatched-route path as on the
  matched-route path, whatever exception is in flight by then, and also when the framework
  skipped \<open>process_resource\<close> because no route matched.
\<close>

theorem finish_is_called_exactly_once:
  assumes hk: "\<forall>h\<in>set (hooks (config_falcon w) ''request'').
                 \<forall>x rq rp. finish_calls (h x rq rp) = finish_calls x"
  shows "(\<exists>sp. current_span (tracers (process_request ext self w req resp) (mw_tracer self))
                 = Some sp \<and> finish_calls sp = 0)
       \<and> (\<exists>sp. current_span
                 (tracers (process_resource self (process_request ext self w req resp)
                             rq_route rp_route res params) (mw_tracer self))
                 = Some sp \<and> finish_calls sp = 0)
       \<and> (\<exists>sp. current_span
                 (tracers (process_response self
                             ((process_resource self (process_request ext self w req resp)
                                 rq_route rp_route res params)\<lparr>exc_info := e\<rparr>)
                             rq_done rp_done res_opt rs) (mw_tracer self))
                 = Some sp \<and> finish_calls sp = 1)
       \<and> (\<exists>sp. current_span
                 (tracers (process_response self
                             ((process_request ext self w req resp)\<lparr>exc_info := e\<rparr>)
                             rq_done rp_done res_opt rs) (mw_tracer self))
                 = Some sp \<and> finish_calls sp = 1)"
proof -
  let ?w1 = "process_request ext self w req resp"
  let ?w2 = "process_resource self ?w1 rq_route rp_route res params"
  obtain sp1 where s1: "current_span (tracers ?w1 (mw_tracer self)) = Some sp1"
      and f1: "finish_calls sp1 = 0"
    using process_request_opens_span by blast
  obtain sp2 where s2: "current_span (tracers ?w2 (mw_tracer self)) = Some sp2"
      and f2: "finish_calls sp2 = 0"
    using process_resource_keeps_finish_calls[OF s1] f1 by metis
  have hk1: "\<forall>h\<in>set (hooks (config_falcon (?w1\<lparr>exc_info := e\<rparr>)) ''request'').
                 \<forall>x rq rp. finish_calls (h x rq rp) = finish_calls x"
    using hk by (simp add: process_request_config)
  have hk2: "\<forall>h\<in>set (hooks (config_falcon (?w2\<lparr>exc_info := e\<rparr>)) ''request'').
                 \<forall>x rq rp. finish_calls (h x rq rp) = finish_calls x"
    using hk by (simp add: process_request_config process_resource_config)
  have s1': "current_span (tracers (?w1\<lparr>exc_info := e\<rparr>) (mw_tracer self)) = Some sp1"
    using s1 by simp
  have s2': "current_span (tracers (?w2\<lparr>exc_info := e\<rparr>) (mw_tracer self)) = Some sp2"
    using s2 by simp
  from process_response_finishes_once[OF s2' hk2, of rq_done rp_done res_opt rs] f2
  have a: "\<exists>sp. current_span
                 (tracers (process_response self (?w2\<lparr>exc_info := e\<rparr>) rq_done rp_done res_opt rs)
                    (mw_tracer self)) = Some sp \<and> finish_calls sp = 1"
    by simp
  from process_response_finishes_once[OF s1' hk1, of rq_done rp_done res_opt rs] f1
  have b: "\<exists>sp. current_span
                 (tracers (process_response self (?w1\<lparr>exc_info := e\<rparr>) rq_done rp_done res_opt rs)
                    (mw_tracer self)) = Some sp \<and> finish_calls sp = 1"
    by simp
  from s1 f1 s2 f2 a b show ?thesis by blast
qed

text \<open>A routed and an unrouted request, with the two callbacks registered.\<close>

theorem finish_is_called_exactly_once_witness:
  "hooks (config_falcon hooked_world) ''request'' = [rename_hook, seen_hook]
   \<and> map_option finish_calls
        (current_span (tracers
           (process_response sample_mw
              (process_resource sample_mw
                 (process_request sample_externals sample_mw hooked_world sample_request
                    sample_response)
                 sample_request sample_response sample_resource [])
              sample_request sample_response (Some sample_resource) (Some True))
           (mw_tracer sample_mw)))
       = Some 1
   \<and> map_option finish_calls
        (current_span (tracers
           (process_response sample_mw
              (process_request sample_externals sample_mw hooked_world sample_request
                 sample_response)
              sample_request sample_response None None)
           (mw_tracer sample_mw)))
       = Some 1"
proof -
  have hs: "hooks (config_falcon hooked_world) ''request'' = [rename_hook, seen_hook]"
    by (simp add: hooked_world_def register_def sample_config_def)
  have hk: "\<forall>h\<in>set (hooks (config_falcon hooked_world) ''request'').
              \<forall>x rq rp. finish_calls (h x rq rp) = finish_calls x"
    unfolding hs by (simp add: rename_hook_def seen_hook_def set_tag_str_def set_tag_def)
  have e: "exc_info (process_resource sample_mw
                 (process_request sample_externals sample_mw hooked_world sample_request
                    sample_response)
                 sample_request sample_response sample_resource []) = None"
          "exc_info (process_request sample_externals sample_mw hooked_world sample_request
                 sample_response) = None"
    by (simp_all add: process_resource_def process_request_def put_span_def Let_def
          hooked_world_def sample_world_def split: option.splits prod.splits)
  have id: "\<And>w. exc_info w = None \<Longrightarrow> w\<lparr>exc_info := None\<rparr> = w"
    by simp
  from finish_is_called_exactly_once[OF hk, where ext = sample_externals and self = sample_mw
         and req = sample_request and resp = sample_response and rq_route = sample_request
         and rp_route = sample_response and res = sample_resource and params = "[]"
         and e = None and rq_done = sample_request and rp_done = sample_response
         and res_opt = "Some sample_resource" and rs = "Some True"]
  have a: "map_option finish_calls
        (current_span (tracers
           (process_response sample_mw
              (process_resource sample_mw
                 (process_request sample_externals sample_mw hooked_world sample_request
                    sample_response)
                 sample_request sample_response sample_resource [])
              sample_request sample_response (Some sample_resource) (Some True))
           (mw_tracer sample_mw))) = Some 1"
    by (auto simp: id[OF e(1)])
  from finish_is_called_exactly_once[OF hk, where ext = sample_externals and self = sample_mw
         and req = sample_request and resp = sample_response and rq_route = sample_request
         and rp_route = sample_response and res = sample_resource and params = "[]"
         and e = None and rq_done = sample_request and rp_done = sample_response
         and res_opt = None and rs = None]
  have b: "map_option finish_calls
        (current_span (tracers
           (process_response sample_mw
              (process_request sample_externals sample_mw hooked_world sample_request
                 sample_response)
              sample_request sample_response None None)
           (mw_tracer sample_mw))) = Some 1"
    by (auto simp: id[OF e(2)])
  from hs a b show ?thesis by simp
qed

section \<open>Patching is idempotent and reversible\<close>

lemma patch_idem: "patch (patch s) = patch s"
  by (simp add: patch_def)

lemma unpatch_idem: "unpatch (unpatch s) = unpatch s"
  by (simp add: unpatch_def)

lemma patch_funpow: "0 < n \<Longrightarrow> (patch ^^ n) s = patch s"
proof (induction n)
  case 0
  then show ?case by simp
next
  case (Suc n)
  show ?case
  proof (cases "n = 0")
    case True
    then show ?thesis by simp
  next
    case False
    with Suc.IH show ?thesis by (simp add: patch_idem)
  qed
qed

lemma restore_wrapped:
  "map ((\<lambda>(n, e). (n, restore e)) \<circ> (\<lambda>(n, e). (n, Wrapper e))) eps = eps"
  by (induction eps) auto

lemma unpatch_patch: "\<not> patched s \<Longrightarrow> unpatch (patch s) = s"
  by (simp add: patch_def unpatch_def restore_wrapped)

lemma patched_once:
  "pristine s \<Longrightarrow> version s \<noteq> None \<Longrightarrow>
   list_all (\<lambda>(n, e). spans_per_call e = 1) (entry_points (patch s))"
  by (auto simp: pristine_def patch_def list_all_iff)

text \<open>
  Claim C9. For an installed library in its pristine state, \<^verbatim>\<open>patch()\<close> called \<open>n \<ge> 1\<close>
  times leaves \<^verbatim>\<open>is_patched()\<close> true and the very state one call leaves, every entry point
  wrapped exactly once; \<^verbatim>\<open>unpatch()\<close> after any number of calls of \<^verbatim>\<open>patch()\<close>, none
  included, gives back the pristine state with \<^verbatim>\<open>is_patched()\<close> false. Both operations
  are idempotent, \<^verbatim>\<open>patch()\<close> does nothing on a patched library and \<^verbatim>\<open>unpatch()\<close> nothing
  on an unpatched one.
\<close>

theorem patch_is_idempotent_and_reversible:
  assumes "pristine s" and "version s \<noteq> None" and "1 \<le> n"
  shows "is_patched ((patch ^^ n) s)
       \<and> (patch ^^ n) s = patch s
       \<and> list_all (\<lambda>(nm, e). spans_per_call e = 1) (entry_points ((patch ^^ n) s))
       \<and> unpatch ((patch ^^ n) s) = s
       \<and> \<not> is_patched (unpatch ((patch ^^ n) s))
       \<and> unpatch ((patch ^^ 0) s) = s
       \<and> (\<forall>t :: 'a patch_state. patch (patch t) = patch t \<and> unpatch (unpatch t) = unpatch t
             \<and> (is_patched t \<longrightarrow> patch t = t) \<and> (\<not> is_patched t \<longrightarrow> unpatch t = t))"
proof -
  from assms(3) have n: "(patch ^^ n) s = patch s" by (simp add: patch_funpow)
  from assms(1) have np: "\<not> patched s" by (simp add: pristine_def)
  have a: "is_patched (patch s)" using np assms(2) by (simp add: is_patched_def patch_def)
  have b: "unpatch (patch s) = s" by (rule unpatch_patch[OF np])
  have c: "\<not> is_patched s" using np by (simp add: is_patched_def)
  have d: "unpatch s = s" using np by (simp add: unpatch_def)
  have e: "\<forall>t :: 'a patch_state. patch (patch t) = patch t \<and> unpatch (unpatch t) = unpatch t
             \<and> (is_patched t \<longrightarrow> patch t = t) \<and> (\<not> is_patched t \<longrightarrow> unpatch t = t)"
    by (simp add: patch_def unpatch_def is_patched_def)
  from a b c d e patched_once[OF assms(1,2)] show ?thesis unfolding n by simp
qed

text \<open>Three calls of \<^verbatim>\<open>patch()\<close> on a library with two entry points.\<close>

theorem patch_is_idempotent_and_reversible_witness:
  "pristine sample_library \<and> version sample_library \<noteq> None \<and> (1::nat) \<le> 3
   \<and> is_patched (patch (patch (patch sample_library)))
   \<and> entry_points (patch (patch (patch sample_library)))
       = [(''connect'', Wrapper (Original ''connect'')), (''execute'', Wrapper (Original ''execute''))]
   \<and> unpatch (patch (patch (patch sample_library))) = sample_library"
  using patch_is_idempotent_and_reversible[where s = sample_library and n = 3]
  by (simp add: sample_library_def pristine_def patch_def unpatch_def is_patched_def
        numeral_3_eq_3)

section \<open>The constructor writes the global configuration\<close>

text \<open>
  Claim C10. Constructing a middleware with a \<^verbatim>\<open>distributed_tracing\<close> argument that is not
  \<^verbatim>\<open>None\<close> writes the argument into the process-wide \<^verbatim>\<open>config.falcon\<close> and changes nothing
  else; with \<^verbatim>\<open>None\<close> the process is left as it was. The setting outlives the instance:
  it is still there after another middleware is constructed without the argument and
  after a request, and \<open>process_request\<close> of every middleware instance extracts a
  distributed context or skips the extraction according to it.
\<close>

theorem init_writes_the_global_configuration:
  "snd (init ext w t svc (Some d))
     = w\<lparr>config_falcon := (config_falcon w)\<lparr>distributed_tracing := d\<rparr>\<rparr>
   \<and> snd (init ext w t svc None) = w
   \<and> distributed_tracing
       (config_falcon (snd (init ext (snd (init ext w t svc (Some d))) t_other svc_other None))) = d
   \<and> distributed_tracing
       (config_falcon (process_request ext other (snd (init ext w t svc (Some d))) req resp)) = d
   \<and> active_context
       (tracers (process_request ext other (snd (init ext w t svc (Some d))) req resp)
          (mw_tracer other))
     = (if d then
          (case extract_context ext (lower_keys (headers req)) of
             None \<Rightarrow> active_context (tracers w (mw_tracer other))
           | Some c \<Rightarrow> Some c)
        else active_context (tracers w (mw_tracer other)))"
proof -
  let ?w' = "snd (init ext w t svc (Some d))"
  have a: "?w' = w\<lparr>config_falcon := (config_falcon w)\<lparr>distributed_tracing := d\<rparr>\<rparr>"
    by (simp add: init_def Let_def)
  have b: "snd (init ext w t svc None) = w"
    by (simp add: init_def Let_def)
  have c: "distributed_tracing (config_falcon (snd (init ext ?w' t_other svc_other None))) = d"
    by (simp add: init_def Let_def)
  have d: "distributed_tracing (config_falcon (process_request ext other ?w' req resp)) = d"
    by (simp add: process_request_config a)
  have e: "active_context (tracers (process_request ext other ?w' req resp) (mw_tracer other))
     = (if d then
          (case extract_context ext (lower_keys (headers req)) of
             None \<Rightarrow> active_context (tracers w (mw_tracer other))
           | Some c \<Rightarrow> Some c)
        else active_context (tracers w (mw_tracer other)))"
    unfolding process_request_context
    by (simp add: a activate_distributed_headers_def split: option.splits)
  from a b c d e show ?thesis by simp
qed

text \<open>
  One middleware switches distributed tracing off; a request handled by another
  middleware on another tracer then activates no context, although its headers carry one.
\<close>

theorem init_writes_the_global_configuration_witness:
  "distributed_tracing (config_falcon idle_world) = True
   \<and> distributed_tracing
       (config_falcon (snd (init sample_externals idle_world 0 None (Some False)))) = False
   \<and> snd (init sample_externals idle_world 0 None None) = idle_world
   \<and> active_context
       (tracers (process_request sample_externals \<lparr>mw_tracer = 1, mw_service = ''api''\<rparr>
                   (snd (init sample_externals idle_world 0 None (Some False)))
                   sample_request sample_response) 1)
     = None"
  using init_writes_the_global_configuration
          [where ext = sample_externals and w = idle_world and t = 0 and svc = None
             and d = False and t_other = 1 and svc_other = None
             and other = "\<lparr>mw_tracer = 1, mw_service = ''api''\<rparr>"
             and req = sample_request and resp = sample_response]
  by (simp add: idle_world_def sample_config_def init_def Let_def)

end
